theory Spec2Isabelle
  imports Complex_Main
begin

section \<open>Failures\<close>

text \<open>
  \<^verbatim>\<open>ABORT\<close> and \<^verbatim>\<open>ABORT_IF\<close> end the process with a message; an operation whose
  behaviour C++ leaves undefined (\<^verbatim>\<open>back()\<close> of an empty vector, a remainder by zero,
  a null pointer dereferenced) is a failure of its own. A function that can fail returns
  \<open>error + 'a\<close>, with \<open>Inl\<close> for the failure.

  An \<^verbatim>\<open>int\<close> has 32 bits. The product of two \<^verbatim>\<open>int\<close>s is the product the
  machine computes: the low 32 bits of the exact product, read as a signed number, so a
  product outside the range of \<^verbatim>\<open>int\<close> wraps around.
\<close>

datatype error = Abort string | UndefinedBehaviour

definition int_mul :: "int \<Rightarrow> int \<Rightarrow> int" where
  "int_mul a b = signed_take_bit 31 (a * b)"

definition and_then :: "error + 'a \<Rightarrow> ('a \<Rightarrow> error + 'b) \<Rightarrow> error + 'b" where
  "and_then r f = (case r of Inl e \<Rightarrow> Inl e | Inr v \<Rightarrow> f v)"

section \<open>The graph engine, as far as the layers use it\<close>

text \<open>
  The engine is declared outside the two files modelled here. What follows is the part of
  its interface that \<^verbatim>\<open>neuralnet.h\<close> and \<^verbatim>\<open>embedder.h\<close> call, with the engine's
  operators as constructors of a graph node: applying an operator builds the node, and
  the value of the node exists only after the graph's forward evaluation. The engine's own
  validation of a node's operands (that a reshape keeps the number of elements, that the
  inner dimensions of a product agree) and its numeric kernels are outside this model.
\<close>

text \<open>
  Modelled from the spec: the enum \<^verbatim>\<open>Type\<close> of element precisions belongs to the
  engine; the spec speaks of ``an element precision (e.g., 32-bit or 16-bit float)''.
\<close>

datatype Type =
  Int8 | Int16 | Int32 | Int64 | UInt8 | UInt16 | UInt32 | UInt64
  | Float16 | Float32 | Float64

text \<open>
  Modelled from the spec: how the engine prints a \<^verbatim>\<open>Type\<close> (the \<^verbatim>\<open>{}\<close> of a
  diagnostic) and reads one from a string (\<^verbatim>\<open>typeFromString\<close>) is the engine's
  business; each type is written by its name.
\<close>

fun type_name :: "Type \<Rightarrow> string" where
  "type_name Int8 = ''int8''"
| "type_name Int16 = ''int16''"
| "type_name Int32 = ''int32''"
| "type_name Int64 = ''int64''"
| "type_name UInt8 = ''uint8''"
| "type_name UInt16 = ''uint16''"
| "type_name UInt32 = ''uint32''"
| "type_name UInt64 = ''uint64''"
| "type_name Float16 = ''float16''"
| "type_name Float32 = ''float32''"
| "type_name Float64 = ''float64''"

definition all_types :: "Type list" where
  "all_types = [Int8, Int16, Int32, Int64, UInt8, UInt16, UInt32, UInt64,
                Float16, Float32, Float64]"

definition typeFromString :: "string \<Rightarrow> error + Type" where
  "typeFromString s =
     (case filter (\<lambda>t. type_name t = s) all_types of
        [] \<Rightarrow> Inl (Abort (''Unknown type '' @ s))
      | t # _ \<Rightarrow> Inr t)"

text \<open>
  Modelled from the spec: \<^verbatim>\<open>Shape\<close> belongs to the engine; it is an ``ordered
  sequence of positive integers''. The code reads one dimension with \<^verbatim>\<open>shape()[i]\<close>, a negative
  \<open>i\<close> counting from the last dimension. An index outside the shape has no dimension to
  read, and the read fails.
\<close>

type_synonym Shape = "int list"

definition shape_at :: "Shape \<Rightarrow> int \<Rightarrow> error + int" where
  "shape_at sh i =
     (if 0 \<le> i \<and> i < int (length sh) then Inr (sh ! nat i)
      else if i < 0 \<and> - int (length sh) \<le> i then Inr (sh ! nat (int (length sh) + i))
      else Inl (Abort ''Index is out of bounds''))"

datatype Initializer = glorotUniform | zeros | ones

text \<open>
  An \<^verbatim>\<open>Expr\<close> is a pointer to a graph node, and may be null: a possibly null
  expression is an \<open>Expr option\<close>. Scalars are \<^verbatim>\<open>float\<close> in the source; here they are
  reals, and every scalar the model computes with is written out where it is rounded
  (see \<open>float32_nearest\<close> below).
\<close>

datatype Expr =
    Input string Shape Type
  | Param string Shape Type "Initializer option"
  | Reshape Expr Shape
  | Repeat Expr int int
  | ScalarSub real Expr
  | ScalarMul Expr real
  | Cast Expr Type
  | Affine Expr Expr Expr bool bool
  | Dot Expr Expr bool bool
  | Relu Expr
  | DropoutNode Expr real Shape
  | DropoutReluInplace Expr real Shape

fun value_type :: "Expr \<Rightarrow> Type" where
  "value_type (Input n sh t) = t"
| "value_type (Param n sh t i) = t"
| "value_type (Reshape e sh) = value_type e"
| "value_type (Repeat e n ax) = value_type e"
| "value_type (ScalarSub c e) = value_type e"
| "value_type (ScalarMul e c) = value_type e"
| "value_type (Cast e t) = t"
| "value_type (Affine x w b ta tb) = value_type x"
| "value_type (Dot x w ta tb) = value_type x"
| "value_type (Relu e) = value_type e"
| "value_type (DropoutNode e p sh) = value_type e"
| "value_type (DropoutReluInplace e p sh) = value_type e"

definition swap_last2 :: "Shape \<Rightarrow> Shape" where
  "swap_last2 sh = (case rev sh of a # b # r \<Rightarrow> rev r @ [a, b] | _ \<Rightarrow> sh)"

definition product_shape :: "Shape \<Rightarrow> Shape \<Rightarrow> bool \<Rightarrow> bool \<Rightarrow> Shape" where
  "product_shape sa sb transA transB =
     (let a = (if transA then swap_last2 sa else sa);
          b = (if transB then swap_last2 sb else sb)
      in case rev b of [] \<Rightarrow> a | d # _ \<Rightarrow> butlast a @ [d])"

definition repeat_shape :: "Shape \<Rightarrow> int \<Rightarrow> int \<Rightarrow> Shape" where
  "repeat_shape sh n ax =
     (let j = (if ax < 0 then int (length sh) + ax else ax)
      in if 0 \<le> j \<and> j < int (length sh) then sh[nat j := int_mul n (sh ! nat j)] else sh)"

fun shape :: "Expr \<Rightarrow> Shape" where
  "shape (Input n sh t) = sh"
| "shape (Param n sh t i) = sh"
| "shape (Reshape e sh) = sh"
| "shape (Repeat e n ax) = repeat_shape (shape e) n ax"
| "shape (ScalarSub c e) = shape e"
| "shape (ScalarMul e c) = shape e"
| "shape (Cast e t) = shape e"
| "shape (Affine x w b ta tb) = product_shape (shape x) (shape w) ta tb"
| "shape (Dot x w ta tb) = product_shape (shape x) (shape w) ta tb"
| "shape (Relu e) = shape e"
| "shape (DropoutNode e p sh) = shape e"
| "shape (DropoutReluInplace e p sh) = shape e"

text \<open>
  Modelled from the spec: \<^verbatim>\<open>cast\<close> is an operator of the engine. The spec has weight
  and bias ``cast to the input's element precision''; a cast to the precision that an
  expression has already changes nothing and gives the expression itself, any other cast
  gives a cast node.
\<close>

definition cast :: "Expr \<Rightarrow> Type \<Rightarrow> Expr" where
  "cast a t = (if value_type a = t then a else Cast a t)"

section \<open>The mask transform (\<^verbatim>\<open>transposedLogMask\<close>)\<close>

text \<open>
  The literal \<^verbatim>\<open>-99999999.f\<close> is a 32-bit float. No float with that value exists: from
  \<open>2^26\<close> to \<open>2^27\<close> the floats are the multiples of 8. \<open>float32_nearest\<close> is the
  conversion of a natural number below \<open>2^128\<close> to the nearest number with a significand
  of 24 bits, ties to the even significand.
\<close>

fun bit_length :: "nat \<Rightarrow> nat" where
  "bit_length n = (if n = 0 then 0 else Suc (bit_length (n div 2)))"

declare bit_length.simps [simp del]

definition float32_nearest :: "nat \<Rightarrow> nat" where
  "float32_nearest n =
     (if bit_length n \<le> 24 then n
      else let u = 2 ^ (bit_length n - 24); q = n div u; r = n mod u
           in if 2 * r < u \<or> (2 * r = u \<and> even q) then q * u else (q + 1) * u)"

text \<open>
  \<^verbatim>\<open>NumericLimits<float>(type).lowest\<close> is a table of the engine, the lowest value
  of each element type as a \<^verbatim>\<open>float\<close>: it is the parameter \<open>lowest\<close>. The lowest
  32-bit float and the lowest 16-bit float are the values of the two precisions that the
  spec names.
\<close>

definition float32_lowest :: real where
  "float32_lowest = - ((2 ^ 24 - 1) * 2 ^ 104)"

definition float16_lowest :: real where
  "float16_lowest = - 65504"

text \<open>
  A table for the examples: the lowest 16-bit float for the 16-bit float, the lowest
  32-bit float for every other type.
\<close>

definition example_lowest :: "Type \<Rightarrow> real" where
  "example_lowest t = (if t = Float16 then float16_lowest else float32_lowest)"

definition maskFactor :: "(Type \<Rightarrow> real) \<Rightarrow> Type \<Rightarrow> real" where
  "maskFactor lowest t = max (lowest t / 2) (- real (float32_nearest 99999999))"

definition transposedLogMask :: "(Type \<Rightarrow> real) \<Rightarrow> Expr option \<Rightarrow> int \<Rightarrow> error + Expr option" where
  "transposedLogMask lowest maskExpr dimHeads =
     (case maskExpr of
        None \<Rightarrow> Inr None
      | Some m \<Rightarrow>
          and_then (shape_at (shape m) (- 3)) (\<lambda>dimBatch.
          and_then (shape_at (shape m) (- 2)) (\<lambda>dimSrcWords.
            let m' = Reshape m [dimBatch, 1, 1, dimSrcWords];
                logMask = ScalarMul (ScalarSub 1 m') (maskFactor lowest (value_type m'));
                logMask' = Reshape (Repeat logMask dimHeads (- 3))
                                   [1, int_mul dimBatch dimHeads, 1, dimSrcWords]
            in Inr (Some logMask'))))"

text \<open>
  Modelled from the spec: the values of a node are the engine's business. The nodes of
  the mask transform compute as the spec says: the log-mask is ``\<open>(1 - mask) *
  maskFactor\<close>'', element by element; a reshape keeps the elements and their order;
  ``replicate across \<open>numHeads\<close> via repetition along the head axis'' puts the copies
  of each block that starts at the axis one after the other. \<open>elements leaf e\<close> is the
  row-major list of the elements of \<open>e\<close>; for every other node it is what the forward
  evaluation gives, the parameter \<open>leaf\<close>. The elements are reals: rounding is not
  modelled, and at the mask values 0 and 1 the operations on floats are exact.
\<close>

primrec blocks :: "nat \<Rightarrow> nat \<Rightarrow> 'a list \<Rightarrow> 'a list list" where
  "blocks 0 len xs = []"
| "blocks (Suc n) len xs = take len xs # blocks n len (drop len xs)"

definition repeat_elements :: "Shape \<Rightarrow> int \<Rightarrow> int \<Rightarrow> 'a list \<Rightarrow> 'a list" where
  "repeat_elements sh n ax xs =
     (let j = (if ax < 0 then int (length sh) + ax else ax)
      in if 0 \<le> j \<and> j < int (length sh)
         then let len = nat (prod_list (drop (nat j) sh))
              in concat (map (\<lambda>block. concat (replicate (nat n) block))
                             (blocks (length xs div len) len xs))
         else xs)"

fun elements :: "(Expr \<Rightarrow> real list) \<Rightarrow> Expr \<Rightarrow> real list" where
  "elements leaf (Reshape e sh) = elements leaf e"
| "elements leaf (Repeat e n ax) = repeat_elements (shape e) n ax (elements leaf e)"
| "elements leaf (ScalarSub c e) = map (\<lambda>v. c - v) (elements leaf e)"
| "elements leaf (ScalarMul e c) = map (\<lambda>v. v * c) (elements leaf e)"
| "elements leaf e = leaf e"

section \<open>Layers (\<^verbatim>\<open>neuralnet.h\<close>)\<close>

text \<open>
  \<^verbatim>\<open>getMode()\<close> reads the mode of the run; it is an argument of every \<open>apply\<close> that
  reads it. A dropout probability is a \<^verbatim>\<open>float\<close>; the code only compares it with
  zero, and it is a real here.
\<close>

datatype Mode = train | eval

record ExpressionGraph =
  inferenceOnly :: bool
  defaultElementType :: Type
  device :: nat
  workspaceMB :: int

record Layer =
  graph :: ExpressionGraph

text \<open>
  Modelled from the spec: \<^verbatim>\<open>registerParameterLazy\<close> is declared with the base class
  \<^verbatim>\<open>Layer\<close>, outside the two files modelled here. ``If parameterSlot is unbound, allocates a tensor of requiredShape using initializer, binds
  it into the owning graph under a derived unique name, and stores it in parameterSlot.
  If already bound, this call is a no-op''; a ``shape mismatch (binder invoked twice with
  incompatible shapes for the same parameter)'' is ``fatal, aborts the process''. The
  function returns the content of the slot after the call. A parameter has the default
  element type of its graph.
\<close>

definition registerParameterLazy ::
  "ExpressionGraph \<Rightarrow> Expr option \<Rightarrow> string \<Rightarrow> Shape \<Rightarrow> Initializer option \<Rightarrow> error + Expr" where
  "registerParameterLazy g slot name sh ini =
     (case slot of
        None \<Rightarrow> Inr (Param name sh (defaultElementType g) ini)
      | Some p \<Rightarrow> if shape p = sh then Inr p else Inl (Abort ''Shape mismatch''))"

subsection \<open>Linear\<close>

record Linear = Layer +
  weight :: "Expr option"
  bias :: "Expr option"
  dimOut :: int
  useBias :: bool
  transposed :: bool
  init :: "Initializer option"

text \<open>
  The typical constructor. Its member initialisers are \<^verbatim>\<open>Layer(graph)\<close>,
  \<^verbatim>\<open>dimOut(dimOut)\<close>, \<^verbatim>\<open>useBias(useBias)\<close> and \<^verbatim>\<open>init(init)\<close>: the argument
  \<^verbatim>\<open>transposed\<close> initialises nothing, and the member keeps its default
  \<^verbatim>\<open>transposed{false}\<close>. \<^verbatim>\<open>weight\<close> and \<^verbatim>\<open>bias\<close> start as null.
\<close>

definition Linear_new :: "ExpressionGraph \<Rightarrow> int \<Rightarrow> bool \<Rightarrow> bool \<Rightarrow> Initializer \<Rightarrow> Linear" where
  "Linear_new g dimOut' useBias' transposed' init' =
     \<lparr>graph = g, weight = None, bias = None, dimOut = dimOut', useBias = useBias',
      transposed = False, init = Some init'\<rparr>"

text \<open>
  The constructor for a tied weight: \<^verbatim>\<open>dimOut\<close> is the last dimension of the weight,
  there is no initialiser, and \<^verbatim>\<open>transposed\<close> again keeps its default.
\<close>

definition Linear_tied :: "ExpressionGraph \<Rightarrow> Expr \<Rightarrow> bool \<Rightarrow> bool \<Rightarrow> error + Linear" where
  "Linear_tied g tiedWeight useBias' transposed' =
     and_then (shape_at (shape tiedWeight) (- 1)) (\<lambda>d.
       Inr \<lparr>graph = g, weight = Some tiedWeight, bias = None, dimOut = d, useBias = useBias',
            transposed = False, init = None\<rparr>)"

text \<open>
  \<^verbatim>\<open>Linear::apply\<close>. The layer comes back with its parameter slots as the call left
  them. The source tests \<^verbatim>\<open>useBias\<close> twice, once to bind the bias and once to choose
  between \<^verbatim>\<open>affine\<close> and \<^verbatim>\<open>dot\<close>; nothing in between changes it, and the model
  tests it once.
\<close>

definition Linear_apply :: "'a Linear_scheme \<Rightarrow> Expr \<Rightarrow> error + ('a Linear_scheme \<times> Expr)" where
  "Linear_apply l x =
     and_then (shape_at (shape x) (- 1)) (\<lambda>dimIn.
     and_then (registerParameterLazy (graph l) (weight l) ''weight''
                 (if transposed l then [dimOut l, dimIn] else [dimIn, dimOut l]) (init l)) (\<lambda>w.
       if useBias l then
         and_then (registerParameterLazy (graph l) (bias l) ''bias'' [dimOut l] (Some zeros)) (\<lambda>b.
           let outputType = value_type x
           in Inr (l\<lparr>weight := Some w, bias := Some b\<rparr>,
                   Affine x (cast w outputType) (cast b outputType) False (transposed l)))
       else
         let outputType = value_type x
         in Inr (l\<lparr>weight := Some w\<rparr>, Dot x (cast w outputType) False (transposed l))))"

subsection \<open>Dropout\<close>

record Dropout = Layer +
  dropoutProbabilty :: real
  dropoutMaskShape :: "Shape option"

definition Dropout_new_shape :: "ExpressionGraph \<Rightarrow> real \<Rightarrow> Shape \<Rightarrow> Dropout" where
  "Dropout_new_shape g p sh = \<lparr>graph = g, dropoutProbabilty = p, dropoutMaskShape = Some sh\<rparr>"

definition Dropout_new :: "ExpressionGraph \<Rightarrow> real \<Rightarrow> Dropout" where
  "Dropout_new g p = \<lparr>graph = g, dropoutProbabilty = p, dropoutMaskShape = None\<rparr>"

text \<open>
  \<^verbatim>\<open>Dropout::apply\<close>. The source's chain is \<^verbatim>\<open>if(shape && p > 0) .. else if(p > 0) ..
  else ..\<close>; the model first looks at the mask shape, then at the probability, and
  reaches each of the three results under the condition the source has for it.
\<close>

definition Dropout_apply :: "Mode \<Rightarrow> Dropout \<Rightarrow> Expr \<Rightarrow> error + Expr" where
  "Dropout_apply mode l input =
     (if mode = eval then Inr input
      else case Dropout.dropoutMaskShape l of
        Some maskShape \<Rightarrow>
          if 0 < Dropout.dropoutProbabilty l
          then Inr (DropoutNode input (Dropout.dropoutProbabilty l) maskShape)
          else Inr input
      | None \<Rightarrow>
          if 0 < Dropout.dropoutProbabilty l
          then and_then (shape_at (shape input) (- 2)) (\<lambda>d2.
               and_then (shape_at (shape input) (- 1)) (\<lambda>d1.
                 Inr (DropoutNode input (Dropout.dropoutProbabilty l) [d2, d1])))
          else Inr input)"

subsection \<open>LinearReluDropout\<close>

record LinearReluDropout = Linear +
  dropoutProbabilty :: real
  dropoutMaskShape :: "Shape option"

text \<open>Both constructors run the typical constructor of \<^verbatim>\<open>Linear\<close> first.\<close>

definition LinearReluDropout_new ::
  "ExpressionGraph \<Rightarrow> int \<Rightarrow> real \<Rightarrow> bool \<Rightarrow> bool \<Rightarrow> Initializer \<Rightarrow> LinearReluDropout" where
  "LinearReluDropout_new g dimOut' p useBias' transposed' init' =
     Linear.extend (Linear_new g dimOut' useBias' transposed' init')
       (LinearReluDropout.fields p None)"

definition LinearReluDropout_new_shape ::
  "ExpressionGraph \<Rightarrow> int \<Rightarrow> real \<Rightarrow> Shape \<Rightarrow> bool \<Rightarrow> bool \<Rightarrow> Initializer \<Rightarrow> LinearReluDropout" where
  "LinearReluDropout_new_shape g dimOut' p sh useBias' transposed' init' =
     Linear.extend (Linear_new g dimOut' useBias' transposed' init')
       (LinearReluDropout.fields p (Some sh))"

text \<open>
  \<^verbatim>\<open>LinearReluDropout::apply\<close>, in two parts. \<open>LinearReluDropout_output\<close> is the
  source down to the local variable \<^verbatim>\<open>output\<close>: the parameters are bound as in
  \<^verbatim>\<open>Linear::apply\<close>, and \<^verbatim>\<open>affine\<close> or \<^verbatim>\<open>dot\<close> gets \<^verbatim>\<open>weight\<close> and
  \<^verbatim>\<open>bias\<close> as they are. \<open>LinearReluDropout_apply\<close> is the whole function.
\<close>

definition LinearReluDropout_output ::
  "LinearReluDropout \<Rightarrow> Expr \<Rightarrow> error + (LinearReluDropout \<times> Expr)" where
  "LinearReluDropout_output l x =
     and_then (shape_at (shape x) (- 1)) (\<lambda>dimIn.
     and_then (registerParameterLazy (graph l) (weight l) ''weight''
                 (if transposed l then [dimOut l, dimIn] else [dimIn, dimOut l]) (init l)) (\<lambda>w.
       if useBias l then
         and_then (registerParameterLazy (graph l) (bias l) ''bias'' [dimOut l] (Some zeros)) (\<lambda>b.
           Inr (l\<lparr>weight := Some w, bias := Some b\<rparr>, Affine x w b False (transposed l)))
       else
         Inr (l\<lparr>weight := Some w\<rparr>, Dot x w False (transposed l))))"

definition LinearReluDropout_apply ::
  "Mode \<Rightarrow> LinearReluDropout \<Rightarrow> Expr \<Rightarrow> error + (LinearReluDropout \<times> Expr)" where
  "LinearReluDropout_apply mode l x =
     and_then (LinearReluDropout_output l x) (\<lambda>(l', output).
       if mode = eval then Inr (l', Relu output)
       else case dropoutMaskShape l of
         Some maskShape \<Rightarrow>
           if 0 < dropoutProbabilty l
           then Inr (l', DropoutReluInplace output (dropoutProbabilty l) maskShape)
           else Inr (l', Relu output)
       | None \<Rightarrow>
           if 0 < dropoutProbabilty l
           then and_then (shape_at (shape output) (- 2)) (\<lambda>d2.
                and_then (shape_at (shape output) (- 1)) (\<lambda>d1.
                  Inr (l', DropoutReluInplace output (dropoutProbabilty l) [d2, d1])))
           else Inr (l', Relu output))"

section \<open>The Embed task (\<^verbatim>\<open>embedder.h\<close>)\<close>

subsection \<open>Options\<close>

text \<open>
  Modelled from the spec: the class \<^verbatim>\<open>Options\<close> is declared elsewhere; the spec
  calls it the ``configuration surface (abstract)''. Options are a map from keys to values.
  \<^verbatim>\<open>with(k1, v1, k2, v2, ..)\<close> gives a copy with the keys set; \<^verbatim>\<open>get<T>(k)\<close> reads
  the value of a key, and aborts where the key has no value of type \<^verbatim>\<open>T\<close>;
  \<^verbatim>\<open>get<T>(k, d)\<close> gives \<open>d\<close> for an absent key.
\<close>

datatype OptionValue =
  BoolV bool | StringV string | IntV int | StringsV "string list" | SizesV "nat list"

type_synonym Options = "string \<Rightarrow> OptionValue option"

fun Options_with :: "Options \<Rightarrow> (string \<times> OptionValue) list \<Rightarrow> Options" where
  "Options_with opts [] = opts"
| "Options_with opts ((k, v) # kvs) = Options_with (opts(k \<mapsto> v)) kvs"

definition get_bool :: "Options \<Rightarrow> string \<Rightarrow> error + bool" where
  "get_bool opts k =
     (case opts k of Some (BoolV b) \<Rightarrow> Inr b | _ \<Rightarrow> Inl (Abort (''Required option '' @ k)))"

definition get_string :: "Options \<Rightarrow> string \<Rightarrow> error + string" where
  "get_string opts k =
     (case opts k of Some (StringV s) \<Rightarrow> Inr s | _ \<Rightarrow> Inl (Abort (''Required option '' @ k)))"

definition get_int :: "Options \<Rightarrow> string \<Rightarrow> error + int" where
  "get_int opts k =
     (case opts k of Some (IntV i) \<Rightarrow> Inr i | _ \<Rightarrow> Inl (Abort (''Required option '' @ k)))"

definition get_strings :: "Options \<Rightarrow> string \<Rightarrow> error + string list" where
  "get_strings opts k =
     (case opts k of Some (StringsV ss) \<Rightarrow> Inr ss | _ \<Rightarrow> Inl (Abort (''Required option '' @ k)))"

definition get_sizes :: "Options \<Rightarrow> string \<Rightarrow> error + nat list" where
  "get_sizes opts k =
     (case opts k of Some (SizesV ns) \<Rightarrow> Inr ns | _ \<Rightarrow> Inl (Abort (''Required option '' @ k)))"

definition get_strings_default :: "Options \<Rightarrow> string \<Rightarrow> string list \<Rightarrow> error + string list" where
  "get_strings_default opts k d =
     (case opts k of
        None \<Rightarrow> Inr d
      | Some (StringsV ss) \<Rightarrow> Inr ss
      | Some _ \<Rightarrow> Inl (Abort (''Required option '' @ k)))"

subsection \<open>The constructor\<close>

text \<open>
  \<^verbatim>\<open>v.push_back(v.back())\<close>: \<^verbatim>\<open>back()\<close> of an empty vector is undefined.
\<close>

definition push_back_back :: "'a list \<Rightarrow> error + 'a list" where
  "push_back_back v = (case v of [] \<Rightarrow> Inl UndefinedBehaviour | _ # _ \<Rightarrow> Inr (v @ [last v]))"

text \<open>
  The first part of the constructor, down to the options the task keeps in
  \<^verbatim>\<open>options_\<close>. The flag is read from the constructor's argument \<^verbatim>\<open>options\<close>, the
  two lists from \<^verbatim>\<open>options_\<close>.
\<close>

definition Embed_options :: "Options \<Rightarrow> error + Options" where
  "Embed_options options =
     (let opts = Options_with options [(''inference'', BoolV True), (''shuffle'', StringV ''none'')]
      in and_then (get_bool options ''compute-similarity'') (\<lambda>similarity.
           if similarity then
             and_then (get_strings opts ''vocabs'') (\<lambda>vVocabs.
             and_then (get_sizes opts ''dim-vocabs'') (\<lambda>vDimVocabs.
             and_then (push_back_back vVocabs) (\<lambda>vVocabs'.
             and_then (push_back_back vDimVocabs) (\<lambda>vDimVocabs'.
               Inr (Options_with opts
                     [(''vocabs'', StringsV vVocabs'),
                      (''dim-vocabs'', SizesV vDimVocabs'),
                      (''input-types'', StringsV (replicate (length vVocabs') ''sequence''))])))))
           else Inr opts))"

text \<open>
  The rest of the constructor builds the corpus, one graph for each device and one model
  for each graph, all from \<^verbatim>\<open>options_\<close>. \<^verbatim>\<open>Corpus\<close>, \<^verbatim>\<open>Config::getDevices\<close> and
  the template argument \<^verbatim>\<open>Model\<close> are declared elsewhere: a corpus and a model are
  what they were built from, and \<open>getDevices\<close> is a parameter. The models are loaded by a
  pool of threads, each task writing its own element of \<^verbatim>\<open>models_\<close>.
\<close>

datatype Corpus = Corpus Options

record Model =
  model_options :: Options
  model_graph :: ExpressionGraph
  model_weights :: string

definition new_graph :: "Options \<Rightarrow> nat \<Rightarrow> error + ExpressionGraph" where
  "new_graph opts dev =
     and_then (get_strings_default opts ''precision'' [''float32'']) (\<lambda>precison.
       case precison of
         [] \<Rightarrow> Inl UndefinedBehaviour
       | p # _ \<Rightarrow>
           and_then (typeFromString p) (\<lambda>t.
           and_then (get_int opts ''workspace'') (\<lambda>ws.
             Inr \<lparr>inferenceOnly = True, defaultElementType = t, device = dev, workspaceMB = ws\<rparr>)))"

fun new_graphs :: "Options \<Rightarrow> nat list \<Rightarrow> error + ExpressionGraph list" where
  "new_graphs opts [] = Inr []"
| "new_graphs opts (dev # devs) =
     and_then (new_graph opts dev) (\<lambda>g.
     and_then (new_graphs opts devs) (\<lambda>gs. Inr (g # gs)))"

text \<open>
  The members \<^verbatim>\<open>options_\<close>, \<^verbatim>\<open>corpus_\<close>, \<^verbatim>\<open>graphs_\<close>, \<^verbatim>\<open>models_\<close> and
  \<^verbatim>\<open>modelFile_\<close> are the fields \<open>m_options\<close> to \<open>m_modelFile\<close>.
\<close>

record Embed =
  m_options :: Options
  m_corpus :: Corpus
  m_graphs :: "ExpressionGraph list"
  m_models :: "Model list"
  m_modelFile :: string

definition Embed_new :: "(Options \<Rightarrow> nat list) \<Rightarrow> Options \<Rightarrow> error + Embed" where
  "Embed_new getDevices options =
     and_then (Embed_options options) (\<lambda>opts.
     and_then (new_graphs opts (getDevices opts)) (\<lambda>graphs.
     and_then (get_string opts ''model'') (\<lambda>modelPath.
       Inr \<lparr>m_options = opts, m_corpus = Corpus opts, m_graphs = graphs,
            m_models = map (\<lambda>g. \<lparr>model_options = opts, model_graph = g,
                                   model_weights = modelPath\<rparr>) graphs,
            m_modelFile = modelPath\<rparr>)))"

subsection \<open>A task of \<^verbatim>\<open>run\<close>: its replica\<close>

text \<open>
  The variables \<^verbatim>\<open>graph\<close> and \<^verbatim>\<open>builder\<close> of a task are \<^verbatim>\<open>thread_local\<close>: each
  worker thread has its own pair, null when the thread starts, and a task finds there what
  the task before it on the same thread left. \<open>task_replica\<close> is the start of a task
  with index \<open>id'\<close>: it gives the thread's variables after the task and the graph and
  model that the task runs \<^verbatim>\<open>build\<close> with. \<open>worker_thread\<close> is one thread running the
  tasks it takes from the pool one after the other; which tasks a thread takes is the
  pool's choice, so the list is any list.
\<close>

record ('g, 'm) ThreadLocal =
  tl_graph :: "'g option"
  tl_builder :: "'m option"

definition task_replica ::
  "'g list \<Rightarrow> 'm list \<Rightarrow> ('g, 'm) ThreadLocal \<Rightarrow> nat \<Rightarrow> error + (('g, 'm) ThreadLocal \<times> 'g \<times> 'm)" where
  "task_replica graphs models tls id' =
     and_then
       (case tl_graph tls of
          None \<Rightarrow>
            if graphs = [] then Inl UndefinedBehaviour
            else if id' mod length graphs < length models
            then Inr \<lparr>tl_graph = Some (graphs ! (id' mod length graphs)),
                      tl_builder = Some (models ! (id' mod length graphs))\<rparr>
            else Inl UndefinedBehaviour
        | Some _ \<Rightarrow> Inr tls)
       (\<lambda>tls'. case (tl_graph tls', tl_builder tls') of
                (Some g, Some b) \<Rightarrow> Inr (tls', g, b)
              | _ \<Rightarrow> Inl UndefinedBehaviour)"

fun worker_thread ::
  "'g list \<Rightarrow> 'm list \<Rightarrow> ('g, 'm) ThreadLocal \<Rightarrow> nat list \<Rightarrow> error + ('g \<times> 'm) list" where
  "worker_thread graphs models tls [] = Inr []"
| "worker_thread graphs models tls (id' # ids) =
     and_then (task_replica graphs models tls id') (\<lambda>(tls', r).
     and_then (worker_thread graphs models tls' ids) (\<lambda>rs. Inr (r # rs)))"

subsection \<open>A task of \<^verbatim>\<open>run\<close>: the values of the embeddings\<close>

text \<open>
  After \<^verbatim>\<open>graph->forward()\<close> the node \<^verbatim>\<open>embeddings\<close> has a value. The tensor class
  belongs to the engine: a value is known by what \<^verbatim>\<open>get\<close> copies out of it into a vector of
  \<^verbatim>\<open>float\<close> and into a vector of \<^verbatim>\<open>float16\<close>. The two number types are the type
  variables \<open>'f\<close> and \<open>'h\<close>, and the conversion of a \<^verbatim>\<open>float16\<close> to a \<^verbatim>\<open>float\<close>,
  which \<^verbatim>\<open>push_back(v)\<close> applies to its argument, is the parameter \<open>widen\<close>.
\<close>

record ('f, 'h) TensorValue =
  get_float :: "'f list"
  get_float16 :: "'h list"

fun push_back_each :: "('h \<Rightarrow> 'f) \<Rightarrow> 'h list \<Rightarrow> 'f list \<Rightarrow> 'f list" where
  "push_back_each widen [] sentVectors = sentVectors"
| "push_back_each widen (v # vs) sentVectors = push_back_each widen vs (sentVectors @ [widen v])"

definition sentVectors_of :: "('h \<Rightarrow> 'f) \<Rightarrow> Expr \<Rightarrow> ('f, 'h) TensorValue \<Rightarrow> error + 'f list" where
  "sentVectors_of widen embeddings val =
     (if value_type embeddings = Float32 then Inr (get_float val)
      else if value_type embeddings = Float16
      then Inr (push_back_each widen (get_float16 val) [])
      else Inl (Abort (''Unknown embedding type '' @ type_name (value_type embeddings))))"

section \<open>The mask transform: properties\<close>

lemma bit_length_bounds: "n < 2 ^ k \<Longrightarrow> 2 ^ k \<le> 2 * n \<Longrightarrow> bit_length n = k"
proof (induction k arbitrary: n)
  case 0
  then show ?case by simp
next
  case (Suc k)
  then have n: "n \<noteq> 0" by auto
  show ?case
  proof (cases k)
    case 0
    with Suc.prems have "n = 1" by simp
    then show ?thesis
      using 0 by (simp add: bit_length.simps [of "Suc 0"] bit_length.simps [of 0])
  next
    case (Suc j)
    have "n div 2 < 2 ^ k" using Suc.prems by simp
    moreover have "2 ^ k \<le> 2 * (n div 2)" using Suc.prems Suc by (simp; presburger)
    ultimately have "bit_length (n div 2) = k" by (rule Suc.IH)
    then show ?thesis using n by (simp add: bit_length.simps [of n])
  qed
qed

lemma bit_length_literal: "bit_length 99999999 = 27"
  by (rule bit_length_bounds) simp_all

text \<open>The float that \<^verbatim>\<open>99999999.f\<close> denotes is \<open>10^8\<close>.\<close>

lemma float32_nearest_literal: "float32_nearest 99999999 = 100000000"
  by (simp add: float32_nearest_def bit_length_literal)

lemma maskFactor_eq: "maskFactor lowest t = max (lowest t / 2) (- 100000000)"
  by (simp add: maskFactor_def float32_nearest_literal)

text \<open>
  The elements of the log-mask node. With \<open>b\<close> rows of \<open>s\<close> elements in the mask and
  \<open>h\<close> heads, the element \<open>k\<close> of row \<open>i\<close> of the mask gives the element \<open>k\<close> of
  each of the rows \<open>i * h + j\<close> of the log-mask, \<open>j < h\<close>.
\<close>

lemma concat_replicate_nth:
  "length block = s \<Longrightarrow> j < h \<Longrightarrow> k < s \<Longrightarrow> concat (replicate h block) ! (j * s + k) = block ! k"
proof (induction h arbitrary: j)
  case 0
  then show ?case by simp
next
  case (Suc h)
  show ?case
  proof (cases j)
    case 0
    with Suc.prems show ?thesis by (simp add: nth_append)
  next
    case (Suc j')
    with Suc.prems have "concat (replicate h block) ! (j' * s + k) = block ! k"
      by (intro Suc.IH) simp_all
    with Suc Suc.prems show ?thesis by (simp add: nth_append add.assoc)
  qed
qed

lemma length_concat_replicate: "length (concat (replicate h block)) = h * length block"
  by (induction h) simp_all

lemma blocks_nth:
  "length xs = b * s \<Longrightarrow> i < b \<Longrightarrow> j < h \<Longrightarrow> k < s \<Longrightarrow>
   concat (map (\<lambda>block. concat (replicate h block)) (blocks b s xs)) ! ((i * h + j) * s + k)
     = xs ! (i * s + k)"
proof (induction b arbitrary: xs i)
  case 0
  then show ?case by simp
next
  case (Suc b)
  have len: "length (take s xs) = s" using Suc.prems by simp
  have first: "length (concat (replicate h (take s xs))) = h * s"
    by (simp only: length_concat_replicate len)
  show ?case
  proof (cases i)
    case 0
    have "j * s + k < h * s"
    proof -
      have "j * s + k < j * s + s" using Suc.prems by simp
      also have "\<dots> = (Suc j) * s" by simp
      also have "\<dots> \<le> h * s" using Suc.prems by (intro mult_le_mono1) simp
      finally show ?thesis .
    qed
    then show ?thesis
      using 0 Suc.prems concat_replicate_nth [OF len, of j h k]
      by (simp add: nth_append first)
  next
    case (Suc i')
    have "length (drop s xs) = b * s" using Suc.prems by simp
    moreover have "i' < b" using Suc Suc.prems by simp
    ultimately have IH: "concat (map (\<lambda>block. concat (replicate h block)) (blocks b s (drop s xs)))
         ! ((i' * h + j) * s + k) = drop s xs ! (i' * s + k)"
      using Suc.prems by (intro Suc.IH)
    have idx: "(i * h + j) * s + k = h * s + ((i' * h + j) * s + k)"
      using Suc by (simp add: algebra_simps)
    have bound: "s + (i' * s + k) \<le> length xs"
    proof -
      have "Suc i' * s + k < Suc i' * s + s" using Suc.prems by simp
      also have "\<dots> = Suc (Suc i') * s" by simp
      also have "\<dots> \<le> Suc b * s" using \<open>i' < b\<close> by (intro mult_le_mono1) simp
      finally show ?thesis using Suc.prems by simp
    qed
    have "concat (map (\<lambda>block. concat (replicate h block)) (blocks (Suc b) s xs))
            ! ((i * h + j) * s + k)
          = (concat (replicate h (take s xs))
              @ concat (map (\<lambda>block. concat (replicate h block)) (blocks b s (drop s xs))))
            ! (length (concat (replicate h (take s xs))) + ((i' * h + j) * s + k))"
      by (simp only: blocks.simps list.map concat.simps idx first)
    also have "\<dots> = concat (map (\<lambda>block. concat (replicate h block)) (blocks b s (drop s xs)))
            ! ((i' * h + j) * s + k)"
      by (rule nth_append_length_plus)
    also have "\<dots> = drop s xs ! (i' * s + k)" by (rule IH)
    also have "\<dots> = xs ! (s + (i' * s + k))" using bound by simp
    also have "\<dots> = xs ! (i * s + k)" using Suc by (simp add: add.assoc)
    finally show ?thesis .
  qed
qed

lemma blocks_length:
  "length xs = b * s \<Longrightarrow>
   length (concat (map (\<lambda>block. concat (replicate h block)) (blocks b s xs))) = b * h * s"
proof (induction b arbitrary: xs)
  case 0
  then show ?case by simp
next
  case (Suc b)
  have "length (take s xs) = s" using Suc.prems by simp
  moreover have "length (drop s xs) = b * s" using Suc.prems by simp
  ultimately show ?case
    using Suc.IH [of "drop s xs"]
    by (simp add: length_concat_replicate algebra_simps del: length_take length_drop)
qed


lemma repeat_elements_heads:
  assumes "length xs = nat b * nat s" and "0 < nat s"
  shows "repeat_elements [b, 1, 1, s] h (- 3) xs
         = concat (map (\<lambda>block. concat (replicate (nat h) block)) (blocks (nat b) (nat s) xs))"
  using assms by (simp add: repeat_elements_def)

lemma logMask_elements:
  assumes "length (elements leaf m) = nat b * nat s"
      and "i < nat b" and "j < nat h" and "k < nat s"
  shows "elements leaf (Reshape (Repeat (ScalarMul (ScalarSub 1 (Reshape m [b, 1, 1, s])) f)
                                  h (- 3)) sh')
           ! ((i * nat h + j) * nat s + k)
         = (1 - elements leaf m ! (i * nat s + k)) * f"
proof -
  let ?xs = "map (\<lambda>v. v * f) (map (\<lambda>v. 1 - v) (elements leaf m))"
  have len: "length ?xs = nat b * nat s" using assms(1) by simp
  have pos: "0 < nat s" using assms(4) by simp
  have in_range: "i * nat s + k < length (elements leaf m)"
  proof -
    have "i * nat s + k < i * nat s + nat s" using assms(4) by simp
    also have "\<dots> = Suc i * nat s" by simp
    also have "\<dots> \<le> nat b * nat s" using assms(2) by (intro mult_le_mono1) simp
    finally show ?thesis using assms(1) by simp
  qed
  have "elements leaf (Reshape (Repeat (ScalarMul (ScalarSub 1 (Reshape m [b, 1, 1, s])) f)
                                  h (- 3)) sh')
        = concat (map (\<lambda>block. concat (replicate (nat h) block)) (blocks (nat b) (nat s) ?xs))"
    using repeat_elements_heads [OF len pos, of h] by simp
  then have "elements leaf (Reshape (Repeat (ScalarMul (ScalarSub 1 (Reshape m [b, 1, 1, s])) f)
                                  h (- 3)) sh')
           ! ((i * nat h + j) * nat s + k) = ?xs ! (i * nat s + k)"
    using blocks_nth [OF len assms(2) assms(3) assms(4)] by simp
  also have "\<dots> = (1 - elements leaf m ! (i * nat s + k)) * f"
    using in_range by simp
  finally show ?thesis .
qed

lemma logMask_length:
  assumes "length (elements leaf m) = nat b * nat s" and "0 < nat s"
  shows "length (elements leaf (Reshape (Repeat (ScalarMul (ScalarSub 1 (Reshape m [b, 1, 1, s])) f)
                                  h (- 3)) sh'))
         = nat b * nat h * nat s"
proof -
  let ?xs = "map (\<lambda>v. v * f) (map (\<lambda>v. 1 - v) (elements leaf m))"
  have len: "length ?xs = nat b * nat s" using assms(1) by simp
  have "elements leaf (Reshape (Repeat (ScalarMul (ScalarSub 1 (Reshape m [b, 1, 1, s])) f)
                                  h (- 3)) sh')
        = concat (map (\<lambda>block. concat (replicate (nat h) block)) (blocks (nat b) (nat s) ?xs))"
    using repeat_elements_heads [OF len assms(2), of h] by simp
  then show ?thesis using blocks_length [OF len, of "nat h"] by simp
qed




lemma logMask_length_all:
  assumes "length (elements leaf m) = nat b * nat s"
  shows "length (elements leaf (Reshape (Repeat (ScalarMul (ScalarSub 1 (Reshape m [b, 1, 1, s])) f)
                                  h (- 3)) sh'))
         = nat b * nat h * nat s"
proof (cases "0 < nat s")
  case True
  with assms show ?thesis by (rule logMask_length)
next
  case False
  with assms show ?thesis by (simp add: repeat_elements_def)
qed

text \<open>
  C1. For a mask whose shape has the two dimensions the transform reads (the batch at
  \<open>-3\<close>, the source length at \<open>-2\<close>) and for every number of heads, the transform
  returns the node \<open>(1 - mask) * maskFactor\<close>, the mask reshaped before and the product
  repeated for the heads and reshaped after, to the shape whose second dimension is the
  32-bit product of batch and heads; and \<open>maskFactor = max (lowest / 2) (- 10^8)\<close>,
  \<open>lowest\<close> being the lowest value of the mask's element type. When the mask has its
  batch times source length elements, the log-mask has that many for each head, and
  its element at a position is \<open>(1 - v) * maskFactor\<close>, \<open>v\<close> being the element of the
  mask at the position it comes from. When the element type is the 32-bit float, the
  factor is \<open>- 10^8\<close>, and the log-mask is exactly \<open>- 10^8\<close> at every position where the
  mask is 0.
\<close>

theorem transposedLogMask_factor:
  assumes "shape_at (shape m) (- 3) = Inr dimBatch"
      and "shape_at (shape m) (- 2) = Inr dimSrcWords"
  shows "\<exists>logMask.
      transposedLogMask lowest (Some m) dimHeads = Inr (Some logMask)
    \<and> logMask = Reshape
           (Repeat (ScalarMul (ScalarSub 1 (Reshape m [dimBatch, 1, 1, dimSrcWords]))
                              (maskFactor lowest (value_type m)))
                   dimHeads (- 3))
           [1, int_mul dimBatch dimHeads, 1, dimSrcWords]
    \<and> maskFactor lowest (value_type m) = max (lowest (value_type m) / 2) (- 100000000)
    \<and> (value_type m = Float32 \<and> lowest Float32 = float32_lowest \<longrightarrow>
          maskFactor lowest (value_type m) = - 100000000)
    \<and> (length (elements leaf m) = nat dimBatch * nat dimSrcWords \<longrightarrow>
          length (elements leaf logMask) = nat dimBatch * nat dimHeads * nat dimSrcWords
        \<and> (\<forall>i j k. i < nat dimBatch \<longrightarrow> j < nat dimHeads \<longrightarrow> k < nat dimSrcWords \<longrightarrow>
              elements leaf logMask ! ((i * nat dimHeads + j) * nat dimSrcWords + k)
                = (1 - elements leaf m ! (i * nat dimSrcWords + k))
                  * maskFactor lowest (value_type m)
            \<and> (value_type m = Float32 \<and> lowest Float32 = float32_lowest
                 \<and> elements leaf m ! (i * nat dimSrcWords + k) = 0 \<longrightarrow>
                 elements leaf logMask ! ((i * nat dimHeads + j) * nat dimSrcWords + k)
                   = - 100000000)))"
proof -
  let ?f = "maskFactor lowest (value_type m)"
  let ?logMask = "Reshape
           (Repeat (ScalarMul (ScalarSub 1 (Reshape m [dimBatch, 1, 1, dimSrcWords])) ?f)
                   dimHeads (- 3))
           [1, int_mul dimBatch dimHeads, 1, dimSrcWords]"
  have ret: "transposedLogMask lowest (Some m) dimHeads = Inr (Some ?logMask)"
    using assms by (simp add: transposedLogMask_def and_then_def)
  have f32: "value_type m = Float32 \<and> lowest Float32 = float32_lowest \<Longrightarrow> ?f = - 100000000"
    by (simp add: maskFactor_eq float32_lowest_def)
  have elems: "elements leaf ?logMask ! ((i * nat dimHeads + j) * nat dimSrcWords + k)
                = (1 - elements leaf m ! (i * nat dimSrcWords + k)) * ?f"
    if "length (elements leaf m) = nat dimBatch * nat dimSrcWords"
      and "i < nat dimBatch" and "j < nat dimHeads" and "k < nat dimSrcWords" for i j k
    using that by (rule logMask_elements)
  have len: "length (elements leaf ?logMask) = nat dimBatch * nat dimHeads * nat dimSrcWords"
    if "length (elements leaf m) = nat dimBatch * nat dimSrcWords"
    using that by (rule logMask_length_all)
  have masked: "elements leaf ?logMask ! ((i * nat dimHeads + j) * nat dimSrcWords + k)
                = - 100000000"
    if "length (elements leaf m) = nat dimBatch * nat dimSrcWords"
      and "i < nat dimBatch" and "j < nat dimHeads" and "k < nat dimSrcWords"
      and "value_type m = Float32 \<and> lowest Float32 = float32_lowest"
      and "elements leaf m ! (i * nat dimSrcWords + k) = 0" for i j k
    using elems [OF that(1-4)] f32 [OF that(5)] that(6) by simp
  show ?thesis
    using ret maskFactor_eq [of lowest "value_type m"] f32 elems len masked
    by (intro exI [of _ ?logMask]) blast
qed

theorem transposedLogMask_factor_witness:
  "transposedLogMask example_lowest
       (Some (Input ''mask'' [2, 3, 1] Float32)) 2 =
     Inr (Some (Reshape
       (Repeat (ScalarMul (ScalarSub 1 (Reshape (Input ''mask'' [2, 3, 1] Float32) [2, 1, 1, 3]))
                          (- 100000000))
               2 (- 3))
       [1, 4, 1, 3]))
   \<and> elements (\<lambda>e. [1, 1, 0, 1, 0, 0])
       (Reshape
         (Repeat (ScalarMul (ScalarSub 1 (Reshape (Input ''mask'' [2, 3, 1] Float32) [2, 1, 1, 3]))
                            (- 100000000))
                 2 (- 3))
         [1, 4, 1, 3]) ! 5 = - 100000000
   \<and> transposedLogMask example_lowest
       (Some (Input ''mask'' [65536, 3, 1] Float16)) 65536 =
     Inr (Some (Reshape
       (Repeat (ScalarMul (ScalarSub 1 (Reshape (Input ''mask'' [65536, 3, 1] Float16) [65536, 1, 1, 3]))
                          (- 32752))
               65536 (- 3))
       [1, 0, 1, 3]))"
proof -
  let ?lowest = "example_lowest"
  let ?leaf = "\<lambda>e :: Expr. [1, 1, 0, 1, 0, 0 :: real]"
  have r3: "shape_at (shape (Input ''mask'' [2, 3, 1] Float32)) (- 3) = Inr 2"
    and r2: "shape_at (shape (Input ''mask'' [2, 3, 1] Float32)) (- 2) = Inr 3"
    by (simp_all add: shape_at_def)
  have q3: "shape_at (shape (Input ''mask'' [65536, 3, 1] Float16)) (- 3) = Inr 65536"
    and q2: "shape_at (shape (Input ''mask'' [65536, 3, 1] Float16)) (- 2) = Inr 3"
    by (simp_all add: shape_at_def)
  let ?m = "Input ''mask'' [2, 3, 1] Float32"
  from transposedLogMask_factor [OF r3 r2, of ?lowest 2 ?leaf]
  obtain logMask where
    a: "transposedLogMask ?lowest (Some ?m) 2 = Inr (Some logMask)"
    and b: "logMask = Reshape
       (Repeat (ScalarMul (ScalarSub 1 (Reshape ?m [2, 1, 1, 3]))
                          (maskFactor ?lowest (value_type ?m)))
               2 (- 3))
       [1, int_mul 2 2, 1, 3]"
    and c: "value_type ?m = Float32 \<and> ?lowest Float32 = float32_lowest \<longrightarrow>
              maskFactor ?lowest (value_type ?m) = - 100000000"
    and d: "length (elements ?leaf ?m) = nat 2 * nat 3 \<longrightarrow>
          length (elements ?leaf logMask) = nat 2 * nat 2 * nat 3
        \<and> (\<forall>i j k. i < nat 2 \<longrightarrow> j < nat 2 \<longrightarrow> k < nat 3 \<longrightarrow>
              elements ?leaf logMask ! ((i * nat 2 + j) * nat 3 + k)
                = (1 - elements ?leaf ?m ! (i * nat 3 + k))
                  * maskFactor ?lowest (value_type ?m)
            \<and> (value_type ?m = Float32 \<and> ?lowest Float32 = float32_lowest
                 \<and> elements ?leaf ?m ! (i * nat 3 + k) = 0 \<longrightarrow>
                 elements ?leaf logMask ! ((i * nat 2 + j) * nat 3 + k)
                   = - 100000000))"
    by blast
  have len: "length (elements ?leaf ?m) = nat 2 * nat 3" by simp
  have f: "maskFactor ?lowest (value_type ?m) = - 100000000"
    using c by (simp add: example_lowest_def)
  from d len have "(0::nat) < nat 2 \<longrightarrow> (1::nat) < nat 2 \<longrightarrow> (2::nat) < nat 3 \<longrightarrow>
              elements ?leaf logMask ! ((0 * nat 2 + 1) * nat 3 + 2)
                = (1 - elements ?leaf ?m ! (0 * nat 3 + 2))
                  * maskFactor ?lowest (value_type ?m)"
    by blast
  then have d': "elements ?leaf logMask ! 5 = - 100000000"
    using f by simp
  have b': "logMask = Reshape
       (Repeat (ScalarMul (ScalarSub 1 (Reshape ?m [2, 1, 1, 3])) (- 100000000)) 2 (- 3))
       [1, 4, 1, 3]"
    using b f by (simp add: int_mul_def)
  from transposedLogMask_factor [OF q3 q2, of ?lowest 65536 ?leaf]
  have e: "transposedLogMask ?lowest (Some (Input ''mask'' [65536, 3, 1] Float16)) 65536 =
     Inr (Some (Reshape
       (Repeat (ScalarMul (ScalarSub 1 (Reshape (Input ''mask'' [65536, 3, 1] Float16) [65536, 1, 1, 3]))
                          (- 32752))
               65536 (- 3))
       [1, 0, 1, 3]))"
    by (auto simp: example_lowest_def float16_lowest_def int_mul_def)
  from a b' d' e show ?thesis by simp
qed




section \<open>Layers: properties\<close>

text \<open>
  Where weight and bias, as bound, have the element type of the input, \<^verbatim>\<open>cast\<close> gives
  them back, and \<^verbatim>\<open>Linear::apply\<close> builds the node that is \<^verbatim>\<open>output\<close> in
  \<^verbatim>\<open>LinearReluDropout::apply\<close>.
\<close>

lemma Linear_apply_same_precision:
  assumes "LinearReluDropout_output l x = Inr (l', output)"
      and "\<forall>w. weight l' = Some w \<longrightarrow> value_type w = value_type x"
      and "\<forall>b. useBias l \<longrightarrow> bias l' = Some b \<longrightarrow> value_type b = value_type x"
  shows "Linear_apply l x = Inr (l', output)"
  using assms
  by (auto simp: LinearReluDropout_output_def Linear_apply_def and_then_def cast_def
      split: sum.splits if_splits)

text \<open>
  C2. The claim has the fused layer cast weight and bias to the element type of the
  input, as \<^verbatim>\<open>Linear::apply\<close> does. \<^verbatim>\<open>LinearReluDropout::apply\<close> has no cast: on an
  input of 16-bit floats, with parameters of 32-bit floats, the fused layer in eval mode
  returns the ReLU of the affine transform of the parameters as they are, and the ReLU of
  \<^verbatim>\<open>Linear::apply\<close> is the ReLU of the affine transform of their casts.
\<close>

theorem LinearReluDropout_omits_cast:
  "map_sum id snd
     (LinearReluDropout_apply eval
        (LinearReluDropout_new
           \<lparr>inferenceOnly = True, defaultElementType = Float32, device = 0, workspaceMB = 512\<rparr>
           3 (1 / 10) True False glorotUniform)
        (Input ''x'' [2, 5] Float16))
   = Inr (Relu (Affine (Input ''x'' [2, 5] Float16)
                  (Param ''weight'' [5, 3] Float32 (Some glorotUniform))
                  (Param ''bias'' [3] Float32 (Some zeros)) False False))
   \<and> map_sum id (Relu \<circ> snd)
     (Linear_apply
        (Linear_new
           \<lparr>inferenceOnly = True, defaultElementType = Float32, device = 0, workspaceMB = 512\<rparr>
           3 True False glorotUniform)
        (Input ''x'' [2, 5] Float16))
   = Inr (Relu (Affine (Input ''x'' [2, 5] Float16)
                  (Cast (Param ''weight'' [5, 3] Float32 (Some glorotUniform)) Float16)
                  (Cast (Param ''bias'' [3] Float32 (Some zeros)) Float16) False False))
   \<and> map_sum id snd
     (LinearReluDropout_apply eval
        (LinearReluDropout_new
           \<lparr>inferenceOnly = True, defaultElementType = Float32, device = 0, workspaceMB = 512\<rparr>
           3 (1 / 10) True False glorotUniform)
        (Input ''x'' [2, 5] Float16))
   \<noteq> map_sum id (Relu \<circ> snd)
     (Linear_apply
        (Linear_new
           \<lparr>inferenceOnly = True, defaultElementType = Float32, device = 0, workspaceMB = 512\<rparr>
           3 True False glorotUniform)
        (Input ''x'' [2, 5] Float16))"
  by (simp add: LinearReluDropout_apply_def LinearReluDropout_output_def
      LinearReluDropout_new_def Linear_apply_def Linear_new_def cast_def
      Linear.extend_def LinearReluDropout.fields_def and_then_def shape_at_def
      registerParameterLazy_def)

text \<open>
  C3. \<^verbatim>\<open>Dropout::apply\<close> returns its input in eval mode, and returns it in every mode
  when the dropout probability is 0, with a mask shape or without one: with probability
  0 the layer in train mode does what it does in eval mode.
\<close>

theorem Dropout_apply_identity:
  "Dropout_apply eval l x = Inr x
   \<and> (Dropout.dropoutProbabilty l = 0 \<longrightarrow>
        Dropout_apply mode l x = Inr x \<and> Dropout_apply train l x = Dropout_apply eval l x)"
  by (simp add: Dropout_apply_def split: option.splits)

theorem Dropout_apply_identity_witness:
  "Dropout.dropoutProbabilty
     (Dropout_new_shape
        \<lparr>inferenceOnly = True, defaultElementType = Float32, device = 0, workspaceMB = 512\<rparr>
        0 [1, 4]) = 0
   \<and> Dropout_apply train
       (Dropout_new_shape
          \<lparr>inferenceOnly = True, defaultElementType = Float32, device = 0, workspaceMB = 512\<rparr>
          0 [1, 4])
       (Input ''x'' [2, 4] Float32)
     = Inr (Input ''x'' [2, 4] Float32)"
  using Dropout_apply_identity
          [of "Dropout_new_shape
                 \<lparr>inferenceOnly = True, defaultElementType = Float32, device = 0,
                  workspaceMB = 512\<rparr> 0 [1, 4]"
              "Input ''x'' [2, 4] Float32" train]
  by (simp add: Dropout_new_shape_def)

text \<open>
  C4. Let the first part of \<^verbatim>\<open>LinearReluDropout::apply\<close> give \<^verbatim>\<open>output\<close>, the affine
  transform of the input (\<^verbatim>\<open>affine\<close> with a bias, \<^verbatim>\<open>dot\<close> without). In eval mode the
  layer returns the ReLU of \<^verbatim>\<open>output\<close>, whatever the dropout probability and the mask
  shape. In train mode with a probability above 0 it returns the fused dropout and ReLU
  of \<^verbatim>\<open>output\<close>, with the mask shape of the layer when it has one and with the last
  two dimensions of \<^verbatim>\<open>output\<close> otherwise. In train mode with probability 0 it returns
  the ReLU of \<^verbatim>\<open>output\<close>.
\<close>

theorem LinearReluDropout_apply_branches:
  assumes "LinearReluDropout_output l x = Inr (l', output)"
  shows "LinearReluDropout_apply eval l x = Inr (l', Relu output)
    \<and> (0 < dropoutProbabilty l \<longrightarrow> dropoutMaskShape l = Some maskShape \<longrightarrow>
         LinearReluDropout_apply train l x
           = Inr (l', DropoutReluInplace output (dropoutProbabilty l) maskShape))
    \<and> (0 < dropoutProbabilty l \<longrightarrow> dropoutMaskShape l = None \<longrightarrow>
         shape_at (shape output) (- 2) = Inr d2 \<longrightarrow> shape_at (shape output) (- 1) = Inr d1 \<longrightarrow>
         LinearReluDropout_apply train l x
           = Inr (l', DropoutReluInplace output (dropoutProbabilty l) [d2, d1]))
    \<and> (dropoutProbabilty l = 0 \<longrightarrow>
         LinearReluDropout_apply train l x = Inr (l', Relu output))
    \<and> (useBias l \<longrightarrow> (\<exists>w b. weight l' = Some w \<and> bias l' = Some b
                           \<and> output = Affine x w b False (transposed l)))
    \<and> (\<not> useBias l \<longrightarrow> (\<exists>w. weight l' = Some w \<and> output = Dot x w False (transposed l)))"
proof -
  have "(useBias l \<longrightarrow> (\<exists>w b. weight l' = Some w \<and> bias l' = Some b
                           \<and> output = Affine x w b False (transposed l)))
    \<and> (\<not> useBias l \<longrightarrow> (\<exists>w. weight l' = Some w \<and> output = Dot x w False (transposed l)))"
    using assms
    by (auto simp: LinearReluDropout_output_def and_then_def split: sum.splits if_splits)
  then show ?thesis
    using assms
    by (simp add: LinearReluDropout_apply_def and_then_def split: option.splits)
qed

lemma LinearReluDropout_output_example:
  "LinearReluDropout_output
     (LinearReluDropout_new
        \<lparr>inferenceOnly = True, defaultElementType = Float32, device = 0, workspaceMB = 512\<rparr>
        3 (1 / 10) True False glorotUniform)
     (Input ''x'' [4, 2, 5] Float32)
   = Inr ((LinearReluDropout_new
        \<lparr>inferenceOnly = True, defaultElementType = Float32, device = 0, workspaceMB = 512\<rparr>
        3 (1 / 10) True False glorotUniform)
          \<lparr>weight := Some (Param ''weight'' [5, 3] Float32 (Some glorotUniform)),
            bias := Some (Param ''bias'' [3] Float32 (Some zeros))\<rparr>,
          Affine (Input ''x'' [4, 2, 5] Float32)
            (Param ''weight'' [5, 3] Float32 (Some glorotUniform))
            (Param ''bias'' [3] Float32 (Some zeros)) False False)"
  by (simp add: LinearReluDropout_output_def LinearReluDropout_new_def Linear_new_def
      Linear.extend_def LinearReluDropout.fields_def and_then_def shape_at_def
      registerParameterLazy_def)

theorem LinearReluDropout_apply_branches_witness:
  "map_sum id snd
     (LinearReluDropout_apply train
        (LinearReluDropout_new
           \<lparr>inferenceOnly = True, defaultElementType = Float32, device = 0, workspaceMB = 512\<rparr>
           3 (1 / 10) True False glorotUniform)
        (Input ''x'' [4, 2, 5] Float32))
   = Inr (DropoutReluInplace
            (Affine (Input ''x'' [4, 2, 5] Float32)
               (Param ''weight'' [5, 3] Float32 (Some glorotUniform))
               (Param ''bias'' [3] Float32 (Some zeros)) False False)
            (1 / 10) [2, 3])
   \<and> map_sum id snd
     (LinearReluDropout_apply eval
        (LinearReluDropout_new
           \<lparr>inferenceOnly = True, defaultElementType = Float32, device = 0, workspaceMB = 512\<rparr>
           3 (1 / 10) True False glorotUniform)
        (Input ''x'' [4, 2, 5] Float32))
   = Inr (Relu
            (Affine (Input ''x'' [4, 2, 5] Float32)
               (Param ''weight'' [5, 3] Float32 (Some glorotUniform))
               (Param ''bias'' [3] Float32 (Some zeros)) False False))"
  using LinearReluDropout_apply_branches [OF LinearReluDropout_output_example, of _ 2 3]
  by (simp add: LinearReluDropout_new_def Linear_new_def Linear.extend_def
      LinearReluDropout.fields_def shape_at_def product_shape_def)

text \<open>
  What \<^verbatim>\<open>Linear::apply\<close> does on a layer from the typical constructor, whatever the
  argument \<^verbatim>\<open>transposed\<close> was: on an input whose last dimension is \<open>d\<close> it binds a
  weight of shape \<open>(d, k)\<close> and, with a bias, a bias of shape \<open>(k)\<close> initialised with
  zeros, and the shape of the result is the shape of the input with \<open>k\<close> for \<open>d\<close>.
\<close>

lemma shape_at_last: "shape_at (pre @ [d]) (- 1) = Inr d"
  by (simp add: shape_at_def nth_append)

lemma shape_cast: "shape (cast a t) = shape a"
  by (simp add: cast_def)

lemma Linear_apply_fresh:
  assumes "shape x = pre @ [d]"
  shows "\<exists>l' y. Linear_apply (Linear_new g k ub tr ini) x = Inr (l', y)
           \<and> weight l' = Some (Param ''weight'' [d, k] (defaultElementType g) (Some ini))
           \<and> bias l' = (if ub then Some (Param ''bias'' [k] (defaultElementType g) (Some zeros))
                         else None)
           \<and> shape y = pre @ [k]"
  using assms
  by (simp add: Linear_apply_def Linear_new_def and_then_def shape_at_last Let_def
      registerParameterLazy_def product_shape_def shape_cast)

text \<open>
  C5. The claim has the weight of a layer configured as transposed bound with the shape
  \<open>(k, d)\<close>. The constructor of \<^verbatim>\<open>Linear\<close> takes \<^verbatim>\<open>transposed\<close> and initialises no
  member with it: a layer built with \<open>dimOut = 3\<close> and \<^verbatim>\<open>transposed = true\<close> has the
  member \<^verbatim>\<open>transposed\<close> false, and on an input of shape \<open>(2, 5)\<close> it binds a weight
  of shape \<open>(5, 3)\<close>.
\<close>

theorem Linear_new_drops_transposed:
  "transposed (Linear_new
       \<lparr>inferenceOnly = True, defaultElementType = Float32, device = 0, workspaceMB = 512\<rparr>
       3 True True glorotUniform) = False
   \<and> map_sum id (weight \<circ> fst)
     (Linear_apply
        (Linear_new
           \<lparr>inferenceOnly = True, defaultElementType = Float32, device = 0, workspaceMB = 512\<rparr>
           3 True True glorotUniform)
        (Input ''x'' [2, 5] Float32))
   = Inr (Some (Param ''weight'' [5, 3] Float32 (Some glorotUniform)))"
  by (simp add: Linear_apply_def Linear_new_def cast_def and_then_def shape_at_def
      registerParameterLazy_def)

section \<open>The Embed task: properties\<close>

lemma push_back_each_map: "push_back_each widen vs acc = acc @ map widen vs"
  by (induction vs arbitrary: acc) simp_all

text \<open>
  C6. The element type of the embeddings selects the path: for the 32-bit float the
  values are what \<^verbatim>\<open>get\<close> copies into the vector of floats; for the 16-bit float they
  are copied into a vector of 16-bit floats and each is converted to a float; for every
  other type the task aborts, and the message names the type.
\<close>

theorem sentVectors_of_paths:
  "(value_type embeddings = Float32 \<longrightarrow>
      sentVectors_of widen embeddings val = Inr (get_float val))
   \<and> (value_type embeddings = Float16 \<longrightarrow>
      sentVectors_of widen embeddings val = Inr (map widen (get_float16 val)))
   \<and> (value_type embeddings \<noteq> Float32 \<and> value_type embeddings \<noteq> Float16 \<longrightarrow>
      sentVectors_of widen embeddings val
        = Inl (Abort (''Unknown embedding type '' @ type_name (value_type embeddings))))"
  by (simp add: sentVectors_of_def push_back_each_map)

theorem sentVectors_of_paths_witness:
  "sentVectors_of real (Input ''e'' [2, 2] Float16)
       \<lparr>get_float = [], get_float16 = [1, 2, 3, 4 :: nat]\<rparr>
     = Inr [1, 2, 3, 4 :: real]
   \<and> sentVectors_of real (Input ''e'' [2, 2] Float32)
       \<lparr>get_float = [5, 6, 7, 8 :: real], get_float16 = ([] :: nat list)\<rparr>
     = Inr [5, 6, 7, 8]
   \<and> sentVectors_of real (Input ''e'' [2, 2] Int8)
       \<lparr>get_float = [], get_float16 = ([] :: nat list)\<rparr>
     = Inl (Abort ''Unknown embedding type int8'')"
  using sentVectors_of_paths
          [of "Input ''e'' [2, 2] Float16" real
              "\<lparr>get_float = [], get_float16 = [1, 2, 3, 4 :: nat]\<rparr>"]
        sentVectors_of_paths
          [of "Input ''e'' [2, 2] Float32" real
              "\<lparr>get_float = [5, 6, 7, 8 :: real], get_float16 = ([] :: nat list)\<rparr>"]
        sentVectors_of_paths
          [of "Input ''e'' [2, 2] Int8" real
              "\<lparr>get_float = [], get_float16 = ([] :: nat list)\<rparr>"]
  by simp

text \<open>
  C7. With the flag \<^verbatim>\<open>compute-similarity\<close> set, the constructor appends to the list
  of vocabularies its last element, appends to the list \<^verbatim>\<open>dim-vocabs\<close> its last
  element, and sets \<^verbatim>\<open>input-types\<close> to a list of \<^verbatim>\<open>"sequence"\<close>, one for each
  vocabulary of the longer list. With the flag unset the three options are what they
  were.
\<close>

theorem Embed_options_similarity:
  "(options ''compute-similarity'' = Some (BoolV True) \<longrightarrow>
      options ''vocabs'' = Some (StringsV vVocabs) \<longrightarrow>
      options ''dim-vocabs'' = Some (SizesV vDimVocabs) \<longrightarrow>
      vVocabs \<noteq> [] \<longrightarrow> vDimVocabs \<noteq> [] \<longrightarrow>
      Embed_options options =
        Inr (options(''inference'' \<mapsto> BoolV True, ''shuffle'' \<mapsto> StringV ''none'',
               ''vocabs'' \<mapsto> StringsV (vVocabs @ [last vVocabs]),
               ''dim-vocabs'' \<mapsto> SizesV (vDimVocabs @ [last vDimVocabs]),
               ''input-types'' \<mapsto> StringsV (replicate (Suc (length vVocabs)) ''sequence''))))
   \<and> (options ''compute-similarity'' = Some (BoolV False) \<longrightarrow>
      (\<exists>opts. Embed_options options = Inr opts
         \<and> opts = options(''inference'' \<mapsto> BoolV True, ''shuffle'' \<mapsto> StringV ''none'')
         \<and> opts ''vocabs'' = options ''vocabs''
         \<and> opts ''dim-vocabs'' = options ''dim-vocabs''
         \<and> opts ''input-types'' = options ''input-types''))"
  by (auto simp: Embed_options_def and_then_def get_bool_def get_strings_def get_sizes_def
      push_back_back_def split: list.splits)

theorem Embed_options_similarity_witness:
  "Embed_options [''compute-similarity'' \<mapsto> BoolV True,
                  ''vocabs'' \<mapsto> StringsV [''src.spm'', ''trg.spm''],
                  ''dim-vocabs'' \<mapsto> SizesV [32000, 16000]]
     = Inr [''compute-similarity'' \<mapsto> BoolV True,
            ''vocabs'' \<mapsto> StringsV [''src.spm'', ''trg.spm''],
            ''dim-vocabs'' \<mapsto> SizesV [32000, 16000],
            ''inference'' \<mapsto> BoolV True, ''shuffle'' \<mapsto> StringV ''none'',
            ''vocabs'' \<mapsto> StringsV [''src.spm'', ''trg.spm'', ''trg.spm''],
            ''dim-vocabs'' \<mapsto> SizesV [32000, 16000, 16000],
            ''input-types'' \<mapsto> StringsV [''sequence'', ''sequence'', ''sequence'']]
   \<and> (\<exists>opts. Embed_options [''compute-similarity'' \<mapsto> BoolV False,
                              ''vocabs'' \<mapsto> StringsV [''src.spm'', ''trg.spm'']] = Inr opts
         \<and> opts ''vocabs'' = Some (StringsV [''src.spm'', ''trg.spm''])
         \<and> opts ''dim-vocabs'' = None
         \<and> opts ''input-types'' = None)"
  using Embed_options_similarity
          [of "[''compute-similarity'' \<mapsto> BoolV True,
                ''vocabs'' \<mapsto> StringsV [''src.spm'', ''trg.spm''],
                ''dim-vocabs'' \<mapsto> SizesV [32000, 16000]]"
              "[''src.spm'', ''trg.spm'']" "[32000, 16000]"]
        Embed_options_similarity
          [of "[''compute-similarity'' \<mapsto> BoolV False,
                ''vocabs'' \<mapsto> StringsV [''src.spm'', ''trg.spm'']]"]
  by (simp add: numeral_3_eq_3 numeral_2_eq_2)

lemma worker_thread_cached:
  "worker_thread graphs models \<lparr>tl_graph = Some g, tl_builder = Some b\<rparr> ids
     = Inr (replicate (length ids) (g, b))"
  by (induction ids) (simp_all add: task_replica_def and_then_def)

text \<open>
  C8, as the claim states it, fails: the replica of a task is not always the one at the
  task's index modulo the number of replicas. With two replicas, a thread that runs task
  0 and then task 3 runs both on replica 0, and \<open>3 mod 2\<close> is 1.
\<close>

theorem task_replica_not_modulo:
  "worker_thread [10, 11 :: nat] [20, 21 :: nat] \<lparr>tl_graph = None, tl_builder = None\<rparr> [0, 3]
     = Inr [(10, 20), (10, 20)]
   \<and> ([10, 11 :: nat] ! (3 mod length [10, 11 :: nat]),
       [20, 21 :: nat] ! (3 mod length [10, 11 :: nat])) = (11, 21)"
  by (simp add: task_replica_def and_then_def numeral_2_eq_2 [symmetric])

text \<open>
  C8, amended. A worker thread that starts with its thread-local variables null and
  runs first the task with index \<open>j\<close> takes the replica at \<open>j mod replicaCount\<close>,
  keeps it in its thread-local variables, and runs each of its tasks, whatever their
  indices, on that replica.
\<close>

theorem worker_thread_first_task:
  assumes "graphs \<noteq> []" and "length models = length graphs"
  shows "worker_thread graphs models \<lparr>tl_graph = None, tl_builder = None\<rparr> (j # ids)
     = Inr (replicate (Suc (length ids))
             (graphs ! (j mod length graphs), models ! (j mod length graphs)))"
  using assms
  by (simp add: task_replica_def and_then_def worker_thread_cached)

theorem worker_thread_first_task_witness:
  "worker_thread [10, 11 :: nat] [20, 21 :: nat] \<lparr>tl_graph = None, tl_builder = None\<rparr> [1, 2, 4]
     = Inr [(11, 21), (11, 21), (11, 21)]"
  using worker_thread_first_task [of "[10, 11 :: nat]" "[20, 21 :: nat]" 1 "[2, 4]"]
  by (simp add: numeral_3_eq_3)

lemma Embed_options_overrides:
  assumes "Embed_options options = Inr opts"
  shows "opts ''inference'' = Some (BoolV True) \<and> opts ''shuffle'' = Some (StringV ''none'')"
  using assms
  by (auto simp: Embed_options_def and_then_def Let_def split: sum.splits if_splits)

lemma new_graphs_inference:
  "new_graphs opts devs = Inr gs \<Longrightarrow> g \<in> set gs \<Longrightarrow> inferenceOnly g"
proof (induction devs arbitrary: gs)
  case Nil
  then show ?case by simp
next
  case (Cons d devs)
  then show ?case
    by (auto simp: and_then_def new_graph_def split: sum.splits list.splits)
qed

text \<open>
  C10. Whatever the options the caller gives, a task that the constructor builds keeps
  options with \<^verbatim>\<open>inference\<close> true and \<^verbatim>\<open>shuffle\<close> \<^verbatim>\<open>"none"\<close>; the corpus and every
  model are built from these options, after the two are set, and every graph is a graph
  for inference.
\<close>

theorem Embed_new_inference:
  assumes "Embed_new getDevices options = Inr e"
  shows "m_options e ''inference'' = Some (BoolV True)
       \<and> m_options e ''shuffle'' = Some (StringV ''none'')
       \<and> Embed_options options = Inr (m_options e)
       \<and> m_corpus e = Corpus (m_options e)
       \<and> (\<forall>m \<in> set (m_models e). model_options m = m_options e)
       \<and> (\<forall>g \<in> set (m_graphs e). inferenceOnly g)"
proof -
  from assms obtain opts graphs modelPath where
    o: "Embed_options options = Inr opts" and
    g: "new_graphs opts (getDevices opts) = Inr graphs" and
    e: "e = \<lparr>m_options = opts, m_corpus = Corpus opts, m_graphs = graphs,
            m_models = map (\<lambda>g. \<lparr>model_options = opts, model_graph = g,
                                   model_weights = modelPath\<rparr>) graphs,
            m_modelFile = modelPath\<rparr>"
    by (auto simp: Embed_new_def and_then_def split: sum.splits)
  show ?thesis
    using Embed_options_overrides [OF o] new_graphs_inference [OF g] o
    by (auto simp: e)
qed

theorem Embed_new_inference_witness:
  "\<exists>e. Embed_new (\<lambda>opts. [0, 1])
          [''compute-similarity'' \<mapsto> BoolV False, ''inference'' \<mapsto> BoolV False,
           ''shuffle'' \<mapsto> StringV ''data'', ''workspace'' \<mapsto> IntV 512,
           ''model'' \<mapsto> StringV ''model.npz''] = Inr e
       \<and> m_options e ''inference'' = Some (BoolV True)
       \<and> m_options e ''shuffle'' = Some (StringV ''none'')
       \<and> length (m_models e) = 2"
proof -
  have "\<exists>e. Embed_new (\<lambda>opts. [0, 1])
          [''compute-similarity'' \<mapsto> BoolV False, ''inference'' \<mapsto> BoolV False,
           ''shuffle'' \<mapsto> StringV ''data'', ''workspace'' \<mapsto> IntV 512,
           ''model'' \<mapsto> StringV ''model.npz''] = Inr e \<and> length (m_models e) = 2"
    by (simp add: Embed_new_def Embed_options_def and_then_def get_bool_def get_string_def
        get_int_def get_strings_default_def new_graph_def typeFromString_def all_types_def)
  then obtain e where
    e: "Embed_new (\<lambda>opts. [0, 1])
          [''compute-similarity'' \<mapsto> BoolV False, ''inference'' \<mapsto> BoolV False,
           ''shuffle'' \<mapsto> StringV ''data'', ''workspace'' \<mapsto> IntV 512,
           ''model'' \<mapsto> StringV ''model.npz''] = Inr e"
    and l: "length (m_models e) = 2"
    by blast
  from Embed_new_inference [OF e] e l show ?thesis by blast
qed

end
